theory Spec2Isabelle
  imports Complex_Main "HOL-Library.Sublist" "HOL-Library.Log_Nat"
begin

section \<open>HealthAssist: the classification core of healthassit.py\<close>

text \<open>
  The source is a single Python file. Its decision logic is a handful of pure functions
  over numbers and strings; they are embedded here one by one, with the names of the source.

  Numbers. Python's \<open>int\<close> is \<^typ>\<open>int\<close>. The classifiers only compare their \<open>float\<close>
  arguments with thresholds, and a comparison of two finite floats (or of a float with
  an int) is exact in Python, so every branch taken on a finite float is the branch taken
  on its value: there a float is modelled by the real number it denotes, and NaN and the
  infinities are outside the model. A decimal literal of the source stands for itself
  (reading a literal as a double is monotone, and the literals the theorems compare are
  equal or distinct as doubles as they are as decimals). \<open>calculate_bmi\<close> is the one
  function that computes with floats; its arithmetic is not that of the reals (results
  are rounded, and they underflow and overflow), so it is modelled on IEEE 754 binary64
  values.

  Strings. A Python \<open>str\<close> is modelled as a \<^typ>\<open>string\<close> holding its UTF-8 bytes.
  The needles of every substring test in the source are ASCII, and UTF-8 is
  self-synchronising, so \<open>needle in s\<close> on the code points is \<^const>\<open>sublist\<close> on the bytes.
\<close>

subsection \<open>Medical norms: the threshold table\<close>

text \<open>
  \<open>DEFAULT_NORMS\<close> is a nested dictionary of fixed shape. It is modelled as a record of
  records, one field per key, so that \<open>norms["bp"]["crisis"][0]\<close> reads
  \<open>fst (crisis (bp norms))\<close>. A table that lacks one of these keys is outside the type.
\<close>

record bmi_norms =
  underweight :: real
  normal_upper :: real
  overweight :: real
  obesity :: real

record bp_norms =
  normal :: "int \<times> int"
  elevated :: "int \<times> int"
  stage_1 :: "int \<times> int"
  stage_2 :: "int \<times> int"
  crisis :: "int \<times> int"

record glucose_norms =
  normal_fasting_upper :: real
  impaired_fasting_lower :: real
  diabetes_fasting :: real
  hypoglycemia :: real
  severe_hypoglycemia :: real

record lipid_norms =
  total_high :: real
  ldl_optimal :: real
  ldl_high :: real
  hdl_low :: real
  trig_high :: real

record norms =
  bmi :: bmi_norms
  bp :: bp_norms
  glucose :: glucose_norms
  lipids :: lipid_norms

definition DEFAULT_NORMS :: norms where
  "DEFAULT_NORMS =
     \<lparr> bmi = \<lparr> underweight = 18.5, normal_upper = 24.9, overweight = 29.9, obesity = 30.0 \<rparr>,
       bp = \<lparr> normal = (120, 80), elevated = (120, 80), stage_1 = (130, 80),
              stage_2 = (140, 90), crisis = (180, 120) \<rparr>,
       glucose = \<lparr> normal_fasting_upper = 99, impaired_fasting_lower = 100,
                   diabetes_fasting = 126, hypoglycemia = 70, severe_hypoglycemia = 54 \<rparr>,
       lipids = \<lparr> total_high = 240, ldl_optimal = 100, ldl_high = 160, hdl_low = 40,
                  trig_high = 200 \<rparr> \<rparr>"

subsection \<open>Exceptions\<close>

text \<open>
  The exceptions the modelled code can raise, all subclasses of \<open>Exception\<close>. A function
  that can raise returns a sum, \<open>Inl\<close> the exception.
\<close>

datatype py_exception =
    ModuleNotFoundError
  | RequestException
  | JSONDecodeError
  | TypeError
  | ZeroDivisionError
  | OverflowError

subsection \<open>Python floats in arithmetic\<close>

text \<open>
  A Python \<open>float\<close> is an IEEE 754 binary64 value: a finite value, an infinity or NaN.
  The two zeros are identified (they compare equal, and no operation below tells them
  apart). \<open>round_double\<close> is rounding to nearest, ties to even, of an exact result:
  \<open>ilog2 x\<close> is the binary exponent \<open>\<lfloor>log 2 x\<rfloor>\<close> of a positive \<open>x\<close>, the unit in the last
  place is \<open>2 powi q\<close> with 53 significant bits and not below the subnormal spacing
  \<open>2 powi (-1074)\<close>, and a rounded magnitude of \<open>2 powi 1024\<close> or more is an infinity.
\<close>

datatype pyfloat = Finite real | PosInf | NegInf | NaN

definition ilog2 :: "real \<Rightarrow> int" where
  "ilog2 x = (if 1 \<le> x then bitlen \<lfloor>x\<rfloor> - 1 else - bitlen (\<lceil>1 / x\<rceil> - 1))"

definition round_half_even :: "real \<Rightarrow> int" where
  "round_half_even y =
     (let f = \<lfloor>y\<rfloor>; d = y - of_int f in
      if d < 1 / 2 then f else if d > 1 / 2 then f + 1 else if even f then f else f + 1)"

definition round_double :: "real \<Rightarrow> pyfloat" where
  "round_double x =
     (if x = 0 then Finite 0
      else
        (let e = ilog2 \<bar>x\<bar>;
             q = max (e - 52) (- 1074);
             r = of_int (round_half_even (x / 2 powi q)) * 2 powi q
         in if \<bar>r\<bar> \<ge> 2 powi 1024 then (if x > 0 then PosInf else NegInf) else Finite r))"

text \<open>\<open>a <= b\<close> on floats: false when either side is NaN.\<close>

definition float_le :: "pyfloat \<Rightarrow> pyfloat \<Rightarrow> bool" where
  "float_le a b =
     (case (a, b) of
        (NaN, _) \<Rightarrow> False
      | (_, NaN) \<Rightarrow> False
      | (NegInf, _) \<Rightarrow> True
      | (_, PosInf) \<Rightarrow> True
      | (Finite x, Finite y) \<Rightarrow> x \<le> y
      | _ \<Rightarrow> False)"

text \<open>
  \<open>a / b\<close> on floats: Python raises \<open>ZeroDivisionError\<close> when \<open>b\<close> is zero, before anything
  else, and otherwise returns the IEEE quotient, which overflows to an infinity silently.
\<close>

definition float_truediv :: "pyfloat \<Rightarrow> pyfloat \<Rightarrow> py_exception + pyfloat" where
  "float_truediv a b =
     (if b = Finite 0 then Inl ZeroDivisionError
      else Inr
        (case (a, b) of
           (Finite x, Finite y) \<Rightarrow> round_double (x / y)
         | (Finite x, PosInf) \<Rightarrow> Finite 0
         | (Finite x, NegInf) \<Rightarrow> Finite 0
         | (PosInf, Finite y) \<Rightarrow> (if y > 0 then PosInf else NegInf)
         | (NegInf, Finite y) \<Rightarrow> (if y > 0 then NegInf else PosInf)
         | _ \<Rightarrow> NaN))"

text \<open>
  \<open>a ** 2\<close> on a float (the exponent is converted to 2.0): NaN gives NaN and an infinity
  gives the positive infinity; on a finite \<open>a\<close> Python calls the C library's \<open>pow\<close> and
  raises \<open>OverflowError\<close> when the result is out of range, while a result that underflows
  is returned (as a subnormal or as 0.0). The model takes the correctly rounded square;
  the C library's \<open>pow\<close> can be one unit in the last place away from it at some inputs.
  The two agree where the exact square is itself a double, where it is below half the
  smallest subnormal (both give 0.0) and where it is out of range, and the theorems about
  \<open>calculate_bmi\<close> are at such inputs.
\<close>

definition float_pow2 :: "pyfloat \<Rightarrow> py_exception + pyfloat" where
  "float_pow2 a =
     (case a of
        NaN \<Rightarrow> Inr NaN
      | PosInf \<Rightarrow> Inr PosInf
      | NegInf \<Rightarrow> Inr PosInf
      | Finite x \<Rightarrow>
          (case round_double (x * x) of
             Finite r \<Rightarrow> Inr (Finite r)
           | _ \<Rightarrow> Inl OverflowError))"

subsection \<open>Core calculations\<close>

definition calculate_bmi :: "pyfloat \<Rightarrow> pyfloat \<Rightarrow> py_exception + pyfloat" where
  "calculate_bmi weight_kg height_cm =
     (if float_le height_cm (Finite 0) then Inr (Finite 0)
      else
        (case float_truediv height_cm (Finite 100) of
           Inl e \<Rightarrow> Inl e
         | Inr metres \<Rightarrow>
             (case float_pow2 metres of
                Inl e \<Rightarrow> Inl e
              | Inr squared \<Rightarrow> float_truediv weight_kg squared)))"

definition bmi_category :: "real \<Rightarrow> norms \<Rightarrow> string" where
  "bmi_category b n =
     (if b < underweight (bmi n) then ''Underweight''
      else if b \<le> normal_upper (bmi n) then ''Normal weight''
      else if b \<le> overweight (bmi n) then ''Overweight''
      else ''Obesity'')"

definition classify_bp :: "int \<Rightarrow> int \<Rightarrow> norms \<Rightarrow> string" where
  "classify_bp systolic diastolic n =
     (if systolic \<ge> fst (crisis (bp n)) \<or> diastolic \<ge> snd (crisis (bp n))
        then ''Hypertensive crisis''
      else if systolic \<ge> fst (stage_2 (bp n)) \<or> diastolic \<ge> snd (stage_2 (bp n))
        then ''Stage 2 Hypertension''
      else if systolic \<ge> fst (stage_1 (bp n)) \<or> diastolic \<ge> snd (stage_1 (bp n))
        then ''Stage 1 Hypertension''
      else if systolic \<ge> fst (elevated (bp n)) \<and> diastolic < snd (elevated (bp n))
        then ''Elevated blood pressure''
      else ''Normal'')"

subsection \<open>The string operations the source uses\<close>

text \<open>
  The non-ASCII characters of the source's messages, as their UTF-8 bytes: the em dash
  U+2014, the en dash U+2013, the multiplication sign U+00D7 and the emoji U+1F6A8.
\<close>

abbreviation em_dash :: string where
  "em_dash \<equiv> [CHR 0xE2, CHR 0x80, CHR 0x94]"

abbreviation en_dash :: string where
  "en_dash \<equiv> [CHR 0xE2, CHR 0x80, CHR 0x93]"

abbreviation times_sign :: string where
  "times_sign \<equiv> [CHR 0xC3, CHR 0x97]"

abbreviation siren :: string where
  "siren \<equiv> [CHR 0xF0, CHR 0x9F, CHR 0x9A, CHR 0xA8]"

text \<open>
  \<open>needle in s\<close> is \<^term>\<open>sublist needle s\<close> and \<open>s.startswith(p)\<close> is
  \<^term>\<open>prefix p s\<close>, both of HOL-Library.Sublist.

  \<open>str.lower\<close> maps the letters A to Z to a to z; the model keeps every other byte. On a
  character outside ASCII \<open>str.lower\<close> gives characters outside ASCII again, with two
  exceptions (U+212A becomes the letter k, U+0130 becomes the letter i followed by
  U+0307), so the model and Python agree on every test for an ASCII needle without k and
  i, such as \<open>startswith("fast")\<close>. The flags that the emergency scan lowers are messages
  of the source, which are cased in ASCII only.
\<close>

definition lower_char :: "char \<Rightarrow> char" where
  "lower_char c =
     (let k = (of_char c :: nat) in if 65 \<le> k \<and> k \<le> 90 then char_of (k + 32) else c)"

definition lower :: "string \<Rightarrow> string" where
  "lower s = map lower_char s"

text \<open>
  \<open>str.strip()\<close> removes from both ends the characters for which \<open>str.isspace\<close> holds.
  There are 29 of them; \<open>whitespace\<close> lists their UTF-8 encodings: the ASCII ones (tab,
  line feed, vertical tab, form feed, carriage return, the separators 0x1C to 0x1F and
  the space), then U+0085, U+00A0, U+1680, U+2000 to U+200A, U+2028, U+2029, U+202F,
  U+205F and U+3000. No encoding is a prefix or a suffix of another, and in a well-formed
  UTF-8 string the bytes of an encoding at either end are that character. \<open>lstrip\<close> and
  \<open>rstrip\<close> remove one character at a time, as the two loops of the Python method do.
\<close>

definition whitespace :: "string list" where
  "whitespace =
     [[CHR 0x09], [CHR 0x0A], [CHR 0x0B], [CHR 0x0C], [CHR 0x0D],
      [CHR 0x1C], [CHR 0x1D], [CHR 0x1E], [CHR 0x1F], [CHR 0x20],
      [CHR 0xC2, CHR 0x85], [CHR 0xC2, CHR 0xA0],
      [CHR 0xE1, CHR 0x9A, CHR 0x80],
      [CHR 0xE2, CHR 0x80, CHR 0x80], [CHR 0xE2, CHR 0x80, CHR 0x81],
      [CHR 0xE2, CHR 0x80, CHR 0x82], [CHR 0xE2, CHR 0x80, CHR 0x83],
      [CHR 0xE2, CHR 0x80, CHR 0x84], [CHR 0xE2, CHR 0x80, CHR 0x85],
      [CHR 0xE2, CHR 0x80, CHR 0x86], [CHR 0xE2, CHR 0x80, CHR 0x87],
      [CHR 0xE2, CHR 0x80, CHR 0x88], [CHR 0xE2, CHR 0x80, CHR 0x89],
      [CHR 0xE2, CHR 0x80, CHR 0x8A],
      [CHR 0xE2, CHR 0x80, CHR 0xA8], [CHR 0xE2, CHR 0x80, CHR 0xA9],
      [CHR 0xE2, CHR 0x80, CHR 0xAF],
      [CHR 0xE2, CHR 0x81, CHR 0x9F],
      [CHR 0xE3, CHR 0x80, CHR 0x80]]"

text \<open>
  \<open>leading_space s\<close> is the number of bytes of the whitespace character \<open>s\<close> starts with,
  0 when it starts with none; \<open>trailing_space\<close> is the same at the end.
\<close>

definition leading_space :: "string \<Rightarrow> nat" where
  "leading_space s =
     (case List.find (\<lambda>w. prefix w s) whitespace of None \<Rightarrow> 0 | Some w \<Rightarrow> length w)"

definition trailing_space :: "string \<Rightarrow> nat" where
  "trailing_space s =
     (case List.find (\<lambda>w. suffix w s) whitespace of None \<Rightarrow> 0 | Some w \<Rightarrow> length w)"

function lstrip :: "string \<Rightarrow> string" where
  "lstrip s = (if leading_space s = 0 then s else lstrip (drop (leading_space s) s))"
  by pat_completeness auto
termination
proof (relation "measure length")
  show "wf (measure length)"
    by simp
next
  fix s :: string
  assume "leading_space s \<noteq> 0"
  moreover have "leading_space s \<le> length s"
    by (auto simp: leading_space_def find_Some_iff prefix_length_le split: option.splits)
  ultimately have "length s - leading_space s < length s"
    by linarith
  then show "(drop (leading_space s) s, s) \<in> measure length"
    by simp
qed

function rstrip :: "string \<Rightarrow> string" where
  "rstrip s = (if trailing_space s = 0 then s else rstrip (take (length s - trailing_space s) s))"
  by pat_completeness auto
termination
proof (relation "measure length")
  show "wf (measure length)"
    by simp
next
  fix s :: string
  assume "trailing_space s \<noteq> 0"
  moreover have "trailing_space s \<le> length s"
    by (auto simp: trailing_space_def find_Some_iff suffix_length_le split: option.splits)
  ultimately have "length s - trailing_space s < length s"
    by linarith
  then show "(take (length s - trailing_space s) s, s) \<in> measure length"
    by simp
qed

declare lstrip.simps [simp del]

declare rstrip.simps [simp del]

definition strip :: "string \<Rightarrow> string" where
  "strip s = rstrip (lstrip s)"

definition startswith :: "string \<Rightarrow> string \<Rightarrow> bool" where
  "startswith s p = prefix p s"

subsection \<open>Glucose, CBC and lipid classifiers\<close>

text \<open>
  \<open>context\<close> is declared \<open>str\<close>, and \<open>context or ""\<close> is \<open>context\<close> itself on every
  string (the empty string is the only falsy one).
\<close>

definition interpret_glucose :: "real \<Rightarrow> string \<Rightarrow> norms \<Rightarrow> string" where
  "interpret_glucose glucose_mg_dL context n =
     (let ctx = lower (strip context); g = glucose_mg_dL in
      if startswith ctx ''fast'' then
        (if g < severe_hypoglycemia (glucose n) then ''Severe hypoglycemia''
         else if g < hypoglycemia (glucose n) then ''Low (hypoglycemia)''
         else if g \<le> normal_fasting_upper (glucose n) then ''Normal fasting''
         else if g < diabetes_fasting (glucose n) then ''Impaired fasting (prediabetes)''
         else ''Diabetes-range fasting'')
      else if g < 54 then ''Severe hypoglycemia''
      else if g < 70 then ''Low (hypoglycemia)''
      else if g < 140 then ''Normal (post-meal)''
      else if g < 200 then ''High (post-meal) '' @ em_dash @ '' consider fasting test''
      else ''Very high (post-meal) '' @ em_dash @ '' diabetes likely'')"

text \<open>
  \<open>cbc_flags\<close> and \<open>interpret_lipids\<close> append to a local list in a fixed order; the
  model rebinds the list after each \<open>if\<close> statement. The parameter \<open>total\<close> of
  \<open>interpret_lipids\<close> is written \<open>total_chol\<close> (\<open>total\<close> is a constant of HOL).
\<close>

definition cbc_flags :: "real \<Rightarrow> real \<Rightarrow> real \<Rightarrow> string list" where
  "cbc_flags hemoglobin wbc platelets =
     (let flags = [];
          flags =
            (if hemoglobin < 8.0
               then flags @ [''Severely low hemoglobin '' @ em_dash @ '' urgent evaluation needed'']
             else if hemoglobin < 12.0
               then flags @ [''Low hemoglobin '' @ em_dash @ '' possible anemia; consider iron studies'']
             else flags);
          flags =
            (if wbc < 2.0
               then flags @ [''Severely low WBC '' @ em_dash @ '' urgent evaluation needed'']
             else if wbc < 4.0
               then flags @ [''Low WBC '' @ em_dash @ '' infection risk'']
             else if wbc > 11.0
               then flags @ [''Elevated WBC '' @ em_dash @ '' possible infection/inflammation; correlate clinically'']
             else flags);
          flags =
            (if platelets < 50.0
               then flags @ [''Very low platelets '' @ em_dash @ '' urgent evaluation'']
             else if platelets < 150.0
               then flags @ [''Low platelets '' @ em_dash @ '' bleeding risk'']
             else if platelets > 450.0
               then flags @ [''High platelets '' @ em_dash @ '' reactive thrombocytosis or myeloproliferative process'']
             else flags)
      in flags)"

definition interpret_lipids :: "real \<Rightarrow> real \<Rightarrow> real \<Rightarrow> real \<Rightarrow> norms \<Rightarrow> string list" where
  "interpret_lipids total_chol ldl hdl trig n =
     (let lines = [];
          lines =
            (if total_chol \<ge> total_high (lipids n)
               then lines @ [''Total cholesterol high '' @ em_dash @ '' repeat fasting lipid profile, consult doctor'']
             else lines);
          lines =
            (if ldl \<ge> ldl_high (lipids n)
               then lines @ [''LDL high '' @ em_dash @ '' strong risk factor for heart disease; discuss statin therapy'']
             else if ldl \<ge> ldl_optimal (lipids n)
               then lines @ [''LDL borderline '' @ em_dash @ '' lifestyle changes recommended'']
             else lines);
          lines =
            (if hdl < hdl_low (lipids n)
               then lines @ [''HDL low '' @ em_dash @ '' increases cardiovascular risk; increase physical activity'']
             else lines);
          lines =
            (if trig \<ge> trig_high (lipids n)
               then lines @ [''Triglycerides high '' @ em_dash @ '' reduce sugars, alcohol; recheck fasting panel'']
             else lines)
      in lines)"

subsection \<open>Exercise recommendations\<close>

text \<open>
  \<open>recs.insert(0, x)\<close> puts \<open>x\<close> in front of the list; \<open>recs.append(x)\<close> puts it last.
  The early \<open>return recs\<close> of the emergency check is the first branch.
\<close>

definition recommend_exercise_advanced :: "int \<Rightarrow> string \<Rightarrow> string \<Rightarrow> string \<Rightarrow> string list" where
  "recommend_exercise_advanced age bmi_cat bp_class glucose_interp =
     (let recs = [] in
      if sublist ''Hypertensive crisis'' bp_class then
        recs @ [siren @ '' Emergency BP: get urgent medical review before starting/exercising.'']
      else
        (let recs = recs @ [''Aerobic target: work up to 150'' @ en_dash @ ''300 min/week moderate-intensity or 75'' @ en_dash @ ''150 min vigorous-intensity (per WHO).''];
             recs = recs @ [''Strength training: 2'' @ en_dash @ ''3 sessions/week, full-body compound exercises (progressive overload).''];
             recs =
               (if bmi_cat = ''Overweight'' \<or> bmi_cat = ''Obesity''
                  then (''Start with low-impact cardio (walking, cycling, swimming) 3'' @ times_sign @ ''/week, 20'' @ en_dash @ ''30 min; increase duration before intensity.'') # recs
                else recs);
             recs =
               (if sublist ''Diabetes'' glucose_interp \<or> sublist ''Impaired'' glucose_interp
                  then recs @ [''Post-meal walks (10'' @ en_dash @ ''15 min) can help blunt glucose spikes; monitor pre/post exercise glucose if on medications.'']
                else recs);
             recs = recs @ [''4-week starter: Week1 walk 20 min '' @ times_sign @ ''3; Week2 add 2'' @ times_sign @ '' strength (bodyweight); Week3 increase walk to 30 min and add interval sessions; Week4 add heavier resistance.''];
             recs = recs @ [''Monitor symptoms: chest pain, severe breathlessness, dizziness '' @ em_dash @ '' stop and seek care. Reassess BP/glucose after beginning program.'']
         in recs))"

subsection \<open>Emergency determination\<close>

text \<open>
  The emergency determination is the block of \<open>run_streamlit_app\<close> that starts at
  \<open>needs_emergency = False\<close>. Its state is the pair of the two locals
  \<open>(needs_emergency, emergency_reasons)\<close>; the \<open>for\<close> loop over \<open>cbc + lipids\<close> is the
  recursion \<open>scan_flags\<close> over that list, and \<open>severity_keyword\<close> is the loop's test
  \<open>any(k in f.lower() for k in ("severe", "urgent", "very low", "very high"))\<close>. The local
  \<open>lipids\<close> is written \<open>lipid_lines\<close> (\<open>lipids\<close> is a field of the norms table here).
\<close>

definition severity_keyword :: "string \<Rightarrow> bool" where
  "severity_keyword f =
     list_ex (\<lambda>k. sublist k (lower f)) [''severe'', ''urgent'', ''very low'', ''very high'']"

fun scan_flags :: "string list \<Rightarrow> bool \<times> string list \<Rightarrow> bool \<times> string list" where
  "scan_flags [] st = st"
| "scan_flags (f # fs) (needs_emergency, emergency_reasons) =
     scan_flags fs
       (if severity_keyword f then (True, emergency_reasons @ [f])
        else (needs_emergency, emergency_reasons))"

definition emergency_determination ::
    "string \<Rightarrow> string \<Rightarrow> string list \<Rightarrow> string list \<Rightarrow> bool \<times> string list" where
  "emergency_determination bp_class glucose_interp cbc lipid_lines =
     (let needs_emergency = False;
          emergency_reasons = [];
          (needs_emergency, emergency_reasons) =
            (if bp_class = ''Hypertensive crisis''
               then (True, emergency_reasons @ [''Very high blood pressure '' @ em_dash @ '' hypertensive crisis''])
             else (needs_emergency, emergency_reasons));
          (needs_emergency, emergency_reasons) =
            (if sublist ''Severe'' glucose_interp
               then (True, emergency_reasons @ [''Severe hypoglycemia or very low glucose''])
             else (needs_emergency, emergency_reasons))
      in scan_flags (cbc @ lipid_lines) (needs_emergency, emergency_reasons))"

text \<open>
  The values the form of \<open>run_streamlit_app\<close> collects for the classifiers and the
  recommendations (the local \<open>glucose\<close> is the field \<open>glucose_value\<close>, \<open>context\<close> is
  \<open>glucose_context\<close> and \<open>total\<close> is \<open>total_cholesterol\<close>). The laboratory values are
  converted by \<open>float(...)\<close> before use; those fields are typed after the conversion.
\<close>

record measurements =
  age :: int
  sex :: string
  height_cm :: int
  weight_kg :: int
  systolic :: int
  diastolic :: int
  glucose_value :: real
  glucose_context :: string
  hemoglobin :: real
  wbc :: real
  platelets :: real
  total_cholesterol :: real
  ldl :: real
  hdl :: real
  trig :: real

definition report_emergency :: "measurements \<Rightarrow> norms \<Rightarrow> bool \<times> string list" where
  "report_emergency m n =
     (let bp_class = classify_bp (systolic m) (diastolic m) n;
          glucose_interp = interpret_glucose (glucose_value m) (glucose_context m) n;
          cbc = cbc_flags (hemoglobin m) (wbc m) (platelets m);
          lipid_lines = interpret_lipids (total_cholesterol m) (ldl m) (hdl m) (trig m) n
      in emergency_determination bp_class glucose_interp cbc lipid_lines)"

subsection \<open>The optional fetch of live norms\<close>

text \<open>
  \<open>fetch_medical_norms\<close> takes no argument: what it returns depends on what the
  environment does inside its \<open>try\<close> block. That is made the argument of the model:
  \<^item> \<open>import requests\<close> can raise (the dependency is optional);
  \<^item> \<open>requests.get(url, timeout=4.0)\<close> can raise (no network, a timeout) or give a response;
  \<^item> the response has a status code, and \<open>resp.json()\<close> raises on a malformed body or
    gives the decoded value, which is any JSON value, not only an object.

  \<open>"bmi" in data\<close> is Python's membership test on whatever \<open>data\<close> is: a key of a
  \<open>dict\<close>, an element of a \<open>list\<close>, a substring of a \<open>str\<close>, and a \<open>TypeError\<close> on a
  number, a boolean or \<open>None\<close>.
\<close>

datatype json =
    JNull
  | JBool bool
  | JNum real
  | JStr string
  | JArr "json list"
  | JObj "(string \<times> json) list"

datatype http_response = Response (status_code: int) (json_body: "py_exception + json")

datatype fetch_outcome =
    ImportFails
  | GetFails
  | GetReturns http_response

text \<open>What the function hands back: the embedded table itself, or the decoded payload.\<close>

datatype norms_value = Default norms | Payload json

definition py_in :: "string \<Rightarrow> json \<Rightarrow> py_exception + bool" where
  "py_in k data =
     (case data of
        JObj kvs \<Rightarrow> Inr (List.member (map fst kvs) k)
      | JArr xs \<Rightarrow> Inr (List.member xs (JStr k))
      | JStr s \<Rightarrow> Inr (sublist k s)
      | _ \<Rightarrow> Inl TypeError)"

text \<open>
  The body of the \<open>try\<close> block: \<open>Inl e\<close> when it raises \<open>e\<close>, \<open>Inr (Some data)\<close> when it
  reaches \<open>return data\<close>, \<open>Inr None\<close> when it falls through. \<open>a and b\<close> evaluates \<open>b\<close> only
  when \<open>a\<close> is true.
\<close>

definition fetch_try :: "fetch_outcome \<Rightarrow> py_exception + json option" where
  "fetch_try env =
     (case env of
        ImportFails \<Rightarrow> Inl ModuleNotFoundError
      | GetFails \<Rightarrow> Inl RequestException
      | GetReturns resp \<Rightarrow>
          if status_code resp = 200 then
            (case json_body resp of
               Inl e \<Rightarrow> Inl e
             | Inr data \<Rightarrow>
                 (case py_in ''bmi'' data of
                    Inl e \<Rightarrow> Inl e
                  | Inr has_bmi \<Rightarrow>
                      if has_bmi then
                        (case py_in ''bp'' data of
                           Inl e \<Rightarrow> Inl e
                         | Inr has_bp \<Rightarrow> if has_bp then Inr (Some data) else Inr None)
                      else Inr None))
          else Inr None)"

text \<open>
  \<open>except Exception: pass\<close> catches each of the exceptions above, and both the handler
  and the fall-through reach \<open>return DEFAULT_NORMS\<close>. The result is a sum so that a raise
  that escaped would be a value \<open>Inl e\<close>.
\<close>

definition fetch_medical_norms :: "fetch_outcome \<Rightarrow> py_exception + norms_value" where
  "fetch_medical_norms env =
     (case fetch_try env of
        Inr (Some data) \<Rightarrow> Inr (Payload data)
      | Inr None \<Rightarrow> Inr (Default DEFAULT_NORMS)
      | Inl e \<Rightarrow> Inr (Default DEFAULT_NORMS))"

section \<open>The specification's vocabulary\<close>

text \<open>
  The definitions of this section follow the words of the specification, not the code:
  the theorems below compare them with the functions embedded above.

  An ordered cascade in which the first rule that holds wins is \<open>first_match\<close> over the
  list of (condition, result) pairs, with the result of the final \<open>else\<close> as default.
\<close>

fun first_match :: "(bool \<times> 'a) list \<Rightarrow> 'a \<Rightarrow> 'a" where
  "first_match [] d = d"
| "first_match ((c, v) # rs) d = (if c then v else first_match rs d)"

text \<open>
  Blood pressure: rules 1 to 3 have the OR form on a (systolic, diastolic) threshold pair,
  rule 4 the AND form with the diastolic comparison reversed.
\<close>

definition bp_rule_or :: "int \<times> int \<Rightarrow> int \<Rightarrow> int \<Rightarrow> bool" where
  "bp_rule_or t s d = (s \<ge> fst t \<or> d \<ge> snd t)"

definition bp_rule_and :: "int \<times> int \<Rightarrow> int \<Rightarrow> int \<Rightarrow> bool" where
  "bp_rule_and t s d = (s \<ge> fst t \<and> d < snd t)"

definition bp_cascade :: "int \<Rightarrow> int \<Rightarrow> norms \<Rightarrow> string" where
  "bp_cascade s d n =
     first_match
       [(bp_rule_or (crisis (bp n)) s d, ''Hypertensive crisis''),
        (bp_rule_or (stage_2 (bp n)) s d, ''Stage 2 Hypertension''),
        (bp_rule_or (stage_1 (bp n)) s d, ''Stage 1 Hypertension''),
        (bp_rule_and (elevated (bp n)) s d, ''Elevated blood pressure'')]
       ''Normal''"

text \<open>Glucose: the two ladders, and the test that chooses between them.\<close>

definition fasting_context :: "string \<Rightarrow> bool" where
  "fasting_context ctx = prefix ''fast'' (lower (strip ctx))"

definition fasting_ladder :: "real \<Rightarrow> norms \<Rightarrow> string" where
  "fasting_ladder g n =
     first_match
       [(g < severe_hypoglycemia (glucose n), ''Severe hypoglycemia''),
        (g < hypoglycemia (glucose n), ''Low (hypoglycemia)''),
        (g \<le> normal_fasting_upper (glucose n), ''Normal fasting''),
        (g < diabetes_fasting (glucose n), ''Impaired fasting (prediabetes)'')]
       ''Diabetes-range fasting''"

definition nonfasting_ladder :: "real \<Rightarrow> string" where
  "nonfasting_ladder g =
     first_match
       [(g < 54, ''Severe hypoglycemia''),
        (g < 70, ''Low (hypoglycemia)''),
        (g < 140, ''Normal (post-meal)''),
        (g < 200, ''High (post-meal) '' @ em_dash @ '' consider fasting test'')]
       (''Very high (post-meal) '' @ em_dash @ '' diabetes likely'')"

text \<open>BMI: the four categories in the order of increasing BMI.\<close>

definition bmi_severity :: "string \<Rightarrow> nat" where
  "bmi_severity c =
     (if c = ''Underweight'' then 0
      else if c = ''Normal weight'' then 1
      else if c = ''Overweight'' then 2
      else 3)"

text \<open>CBC: the three checks, each a cascade that yields at most one flag.\<close>

definition hemoglobin_check :: "real \<Rightarrow> string list" where
  "hemoglobin_check h =
     first_match
       [(h < 8.0, [''Severely low hemoglobin '' @ em_dash @ '' urgent evaluation needed'']),
        (h < 12.0, [''Low hemoglobin '' @ em_dash @ '' possible anemia; consider iron studies''])]
       []"

definition wbc_check :: "real \<Rightarrow> string list" where
  "wbc_check w =
     first_match
       [(w < 2.0, [''Severely low WBC '' @ em_dash @ '' urgent evaluation needed'']),
        (w < 4.0, [''Low WBC '' @ em_dash @ '' infection risk'']),
        (w > 11.0, [''Elevated WBC '' @ em_dash @ '' possible infection/inflammation; correlate clinically''])]
       []"

definition platelets_check :: "real \<Rightarrow> string list" where
  "platelets_check p =
     first_match
       [(p < 50.0, [''Very low platelets '' @ em_dash @ '' urgent evaluation'']),
        (p < 150.0, [''Low platelets '' @ em_dash @ '' bleeding risk'']),
        (p > 450.0, [''High platelets '' @ em_dash @ '' reactive thrombocytosis or myeloproliferative process''])]
       []"

text \<open>Lipids: the five messages \<open>interpret_lipids\<close> can append.\<close>

definition lipid_messages :: "string list" where
  "lipid_messages =
     [''Total cholesterol high '' @ em_dash @ '' repeat fasting lipid profile, consult doctor'',
      ''LDL high '' @ em_dash @ '' strong risk factor for heart disease; discuss statin therapy'',
      ''LDL borderline '' @ em_dash @ '' lifestyle changes recommended'',
      ''HDL low '' @ em_dash @ '' increases cardiovascular risk; increase physical activity'',
      ''Triglycerides high '' @ em_dash @ '' reduce sugars, alcohol; recheck fasting panel'']"

text \<open>Norms provider: a payload has a top-level key only when it is a JSON object.\<close>

definition has_key :: "json \<Rightarrow> string \<Rightarrow> bool" where
  "has_key data k = (case data of JObj kvs \<Rightarrow> List.member (map fst kvs) k | _ \<Rightarrow> False)"

section \<open>Blood pressure\<close>

text \<open>
  C1. For every systolic/diastolic pair and every norms table, \<open>classify_bp\<close> is the
  ordered first-match cascade of the five rules: each label is returned exactly when its
  rule holds and no earlier rule does. The first three rules are an OR over the
  threshold pair; the Elevated rule needs systolic at or above its threshold AND
  diastolic below its threshold; Normal is what is left. With the default norms,
  (125, 75) is Elevated blood pressure.
\<close>

theorem classify_bp_cascade:
  "classify_bp s d n = bp_cascade s d n
   \<and> (classify_bp s d n = ''Hypertensive crisis'') = bp_rule_or (crisis (bp n)) s d
   \<and> (classify_bp s d n = ''Stage 2 Hypertension'') =
       (\<not> bp_rule_or (crisis (bp n)) s d \<and> bp_rule_or (stage_2 (bp n)) s d)
   \<and> (classify_bp s d n = ''Stage 1 Hypertension'') =
       (\<not> bp_rule_or (crisis (bp n)) s d \<and> \<not> bp_rule_or (stage_2 (bp n)) s d
        \<and> bp_rule_or (stage_1 (bp n)) s d)
   \<and> (classify_bp s d n = ''Elevated blood pressure'') =
       (\<not> bp_rule_or (crisis (bp n)) s d \<and> \<not> bp_rule_or (stage_2 (bp n)) s d
        \<and> \<not> bp_rule_or (stage_1 (bp n)) s d \<and> bp_rule_and (elevated (bp n)) s d)
   \<and> (classify_bp s d n = ''Normal'') =
       (\<not> bp_rule_or (crisis (bp n)) s d \<and> \<not> bp_rule_or (stage_2 (bp n)) s d
        \<and> \<not> bp_rule_or (stage_1 (bp n)) s d \<and> \<not> bp_rule_and (elevated (bp n)) s d)
   \<and> classify_bp 125 75 DEFAULT_NORMS = ''Elevated blood pressure''"
  by (simp add: classify_bp_def bp_cascade_def bp_rule_or_def bp_rule_and_def DEFAULT_NORMS_def)

theorem classify_bp_cascade_witness:
  "classify_bp 150 75 DEFAULT_NORMS = ''Stage 2 Hypertension''
   \<and> bp_cascade 150 75 DEFAULT_NORMS = ''Stage 2 Hypertension''"
  using classify_bp_cascade [of 150 75 DEFAULT_NORMS]
  by (simp add: bp_rule_or_def bp_cascade_def DEFAULT_NORMS_def)

text \<open>
  C10. With the embedded default norms, \<open>classify_bp\<close> returns Normal exactly when
  systolic < 120 and diastolic < 80. No reading falls through a gap: a diastolic of 80 or
  more is Stage 1 or worse, and a systolic of 120 or more with a diastolic under 80 is
  Elevated or worse.
\<close>

theorem classify_bp_default_normal:
  "(classify_bp s d DEFAULT_NORMS = ''Normal'') = (s < 120 \<and> d < 80)
   \<and> (d \<ge> 80 \<longrightarrow> classify_bp s d DEFAULT_NORMS \<in>
         {''Stage 1 Hypertension'', ''Stage 2 Hypertension'', ''Hypertensive crisis''})
   \<and> (s \<ge> 120 \<and> d < 80 \<longrightarrow> classify_bp s d DEFAULT_NORMS \<in>
         {''Elevated blood pressure'', ''Stage 1 Hypertension'', ''Stage 2 Hypertension'',
          ''Hypertensive crisis''})"
  by (simp add: classify_bp_def DEFAULT_NORMS_def)

theorem classify_bp_default_normal_witness:
  "classify_bp 110 85 DEFAULT_NORMS \<in>
     {''Stage 1 Hypertension'', ''Stage 2 Hypertension'', ''Hypertensive crisis''}
   \<and> classify_bp 125 70 DEFAULT_NORMS \<in>
     {''Elevated blood pressure'', ''Stage 1 Hypertension'', ''Stage 2 Hypertension'',
      ''Hypertensive crisis''}
   \<and> classify_bp 119 79 DEFAULT_NORMS = ''Normal''"
proof -
  have high_diastolic: "(85 :: int) \<ge> 80"
    by simp
  have high_systolic: "(125 :: int) \<ge> 120 \<and> (70 :: int) < 80"
    by simp
  have low: "(119 :: int) < 120 \<and> (79 :: int) < 80"
    by simp
  from high_diastolic high_systolic low
    classify_bp_default_normal [of 110 85]
    classify_bp_default_normal [of 125 70]
    classify_bp_default_normal [of 119 79]
  show ?thesis
    by blast
qed

section \<open>Glucose\<close>

subsection \<open>Trimming\<close>

text \<open>
  A whitespace character in front of a string is removed by \<open>strip\<close>, whichever of the 29
  it is; the examples have whitespace inside ASCII and outside, at both ends.
\<close>

lemma leading_space_table:
  "list_all (\<lambda>w. w \<noteq> [] \<and> leading_space (w @ s) = length w) whitespace"
  by (simp add: whitespace_def leading_space_def)

lemma leading_space_whitespace:
  "w \<in> set whitespace \<Longrightarrow> w \<noteq> [] \<and> leading_space (w @ s) = length w"
  using leading_space_table [of s] unfolding list_all_iff by blast

lemma lstrip_whitespace:
  assumes "w \<in> set whitespace"
  shows "lstrip (w @ s) = lstrip s"
  using leading_space_whitespace [OF assms, of s]
  by (subst lstrip.simps) simp

lemma strip_leading_whitespace:
  "w \<in> set whitespace \<Longrightarrow> strip (w @ s) = strip s"
  by (simp add: strip_def lstrip_whitespace)

lemma strip_Fasting_spaces: "strip (''  Fasting'' @ [CHR 0x09, CHR 0x0A]) = ''Fasting''"
  by code_simp

lemma strip_FASTING_unicode:
  "strip ([CHR 0xC2, CHR 0xA0] @ '' FASTING '' @ [CHR 0xE3, CHR 0x80, CHR 0x80]) = ''FASTING''"
  by code_simp

lemma strip_inner_whitespace: "strip '' post meal '' = ''post meal''"
  by code_simp

lemma lower_FASTING: "lower ''FASTING'' = ''fasting''"
  by code_simp

subsection \<open>The two ladders\<close>

lemma lower_strip_Fasting: "lower (strip ''Fasting'') = ''fasting''"
  by code_simp

lemma lower_strip_Random: "lower (strip ''Random'') = ''random''"
  by code_simp

lemma lower_strip_Post_meal: "lower (strip ''Post-meal'') = ''post-meal''"
  by code_simp

lemma interpret_glucose_split:
  "interpret_glucose g ctx n =
     (if fasting_context ctx then fasting_ladder g n else nonfasting_ladder g)"
  by (simp add: interpret_glucose_def fasting_context_def startswith_def fasting_ladder_def
      nonfasting_ladder_def)

lemma fasting_context_leading_whitespace:
  "w \<in> set whitespace \<Longrightarrow> fasting_context (w @ ctx) = fasting_context ctx"
  by (simp add: fasting_context_def strip_leading_whitespace)

text \<open>
  C2. For every glucose value and context string, \<open>interpret_glucose\<close> uses the fasting
  ladder exactly when the trimmed, lowercased context starts with "fast", and otherwise
  the ladder of the literal cutoffs 54, 70, 140, 200, whose result does not depend on the
  norms table. Trimming is that of \<open>str.strip\<close>: a whitespace character in front of the
  context, ASCII or not, changes nothing. ("Fasting", 100) is Impaired fasting
  (prediabetes) under the default norms, also when written in capitals between a
  no-break space and an ideographic space, and ("Random", 250) is Very high (post-meal)
  under every norms table.
\<close>

theorem interpret_glucose_ladders:
  "interpret_glucose g ctx n =
     (if fasting_context ctx then fasting_ladder g n else nonfasting_ladder g)
   \<and> (\<not> fasting_context ctx \<longrightarrow> interpret_glucose g ctx n = interpret_glucose g ctx n')
   \<and> (w \<in> set whitespace \<longrightarrow> interpret_glucose g (w @ ctx) n = interpret_glucose g ctx n)
   \<and> interpret_glucose 100 ''Fasting'' DEFAULT_NORMS = ''Impaired fasting (prediabetes)''
   \<and> interpret_glucose 100
        ([CHR 0xC2, CHR 0xA0] @ '' FASTING '' @ [CHR 0xE3, CHR 0x80, CHR 0x80]) DEFAULT_NORMS =
       ''Impaired fasting (prediabetes)''
   \<and> interpret_glucose 250 ''Random'' n =
       ''Very high (post-meal) '' @ em_dash @ '' diabetes likely''"
proof -
  have fasting: "fasting_context ''Fasting''"
    by (simp add: fasting_context_def lower_strip_Fasting)
  have unicode: "fasting_context ([CHR 0xC2, CHR 0xA0] @ '' FASTING '' @ [CHR 0xE3, CHR 0x80, CHR 0x80])"
    unfolding fasting_context_def strip_FASTING_unicode lower_FASTING by simp
  have random: "\<not> fasting_context ''Random''"
    by (simp add: fasting_context_def lower_strip_Random)
  have ladder: "fasting_ladder 100 DEFAULT_NORMS = ''Impaired fasting (prediabetes)''"
    by (simp add: fasting_ladder_def DEFAULT_NORMS_def)
  have a: "interpret_glucose 100 ''Fasting'' DEFAULT_NORMS = ''Impaired fasting (prediabetes)''"
    by (simp only: interpret_glucose_split fasting ladder if_True)
  have b: "interpret_glucose 100
      ([CHR 0xC2, CHR 0xA0] @ '' FASTING '' @ [CHR 0xE3, CHR 0x80, CHR 0x80]) DEFAULT_NORMS =
      ''Impaired fasting (prediabetes)''"
    by (simp only: interpret_glucose_split unicode ladder if_True)
  have c: "interpret_glucose 250 ''Random'' n =
      ''Very high (post-meal) '' @ em_dash @ '' diabetes likely''"
    by (simp add: interpret_glucose_split random nonfasting_ladder_def)
  have d: "w \<in> set whitespace \<longrightarrow> interpret_glucose g (w @ ctx) n = interpret_glucose g ctx n"
    by (simp add: interpret_glucose_split fasting_context_leading_whitespace)
  have e: "\<not> fasting_context ctx \<longrightarrow> interpret_glucose g ctx n = interpret_glucose g ctx n'"
    by (simp add: interpret_glucose_split)
  from a b c d e show ?thesis
    by (intro conjI) (rule interpret_glucose_split)
qed

theorem interpret_glucose_ladders_witness:
  "\<not> fasting_context ''Post-meal''
   \<and> interpret_glucose 60 ''Post-meal'' DEFAULT_NORMS = ''Low (hypoglycemia)''
   \<and> interpret_glucose 60 ''Post-meal'' DEFAULT_NORMS =
       interpret_glucose 60 ''Post-meal''
         (DEFAULT_NORMS\<lparr>glucose := (glucose DEFAULT_NORMS)\<lparr>hypoglycemia := 50\<rparr>\<rparr>)
   \<and> [CHR 0xC2, CHR 0xA0] \<in> set whitespace
   \<and> interpret_glucose 60 ([CHR 0xC2, CHR 0xA0] @ ''Post-meal'') DEFAULT_NORMS =
       ''Low (hypoglycemia)''"
proof -
  let ?n' = "DEFAULT_NORMS\<lparr>glucose := (glucose DEFAULT_NORMS)\<lparr>hypoglycemia := 50\<rparr>\<rparr>"
  let ?nbsp = "[CHR 0xC2, CHR 0xA0]"
  have post: "\<not> fasting_context ''Post-meal''"
    by (simp add: fasting_context_def lower_strip_Post_meal)
  have nbsp: "?nbsp \<in> set whitespace"
    by (simp add: whitespace_def)
  note inst = interpret_glucose_ladders [of 60 "''Post-meal''" DEFAULT_NORMS ?n' ?nbsp]
  from inst post
  have ladder: "interpret_glucose 60 ''Post-meal'' DEFAULT_NORMS = nonfasting_ladder 60"
    by presburger
  from inst post
  have same:
    "interpret_glucose 60 ''Post-meal'' DEFAULT_NORMS = interpret_glucose 60 ''Post-meal'' ?n'"
    by blast
  from inst nbsp
  have trimmed: "interpret_glucose 60 (?nbsp @ ''Post-meal'') DEFAULT_NORMS =
      interpret_glucose 60 ''Post-meal'' DEFAULT_NORMS"
    by blast
  have low: "nonfasting_ladder 60 = ''Low (hypoglycemia)''"
    by (simp add: nonfasting_ladder_def)
  from ladder same trimmed low post nbsp show ?thesis
    by (simp only: simp_thms)
qed

section \<open>Emergency determination\<close>

lemma scan_flags_invariant:
  "(rs = []) = (\<not> ne) \<Longrightarrow>
     (snd (scan_flags fs (ne, rs)) = []) = (\<not> fst (scan_flags fs (ne, rs)))"
  by (induction fs arbitrary: ne rs) auto

lemma emergency_determination_invariant:
  "(snd (emergency_determination b g c l) = []) = (\<not> fst (emergency_determination b g c l))"
  unfolding emergency_determination_def Let_def
  by (simp add: scan_flags_invariant)

lemma scan_flags_append:
  "scan_flags (xs @ ys) st = scan_flags ys (scan_flags xs st)"
  by (induction xs arbitrary: st) (auto split: prod.splits)

lemma scan_flags_no_keyword:
  "list_all (\<lambda>f. \<not> severity_keyword f) fs \<Longrightarrow> scan_flags fs st = st"
  by (induction fs arbitrary: st) (auto split: prod.splits)

lemma emergency_determination_scan:
  "emergency_determination b gi c (l @ l') =
     scan_flags l' (emergency_determination b gi c l)"
  by (simp add: emergency_determination_def Let_def scan_flags_append split: prod.splits)

lemma severity_keyword_very_low_platelets:
  "severity_keyword (''Very low platelets '' @ em_dash @ '' urgent evaluation'')"
  by code_simp

text \<open>
  C3. For every set of measurements and every norms table, the emergency determination
  computed from the BP classification, the glucose interpretation and the CBC and lipid
  flag lists has an empty reasons list if and only if \<open>needs_emergency\<close> is false.
\<close>

theorem emergency_reasons_empty_iff:
  "(snd (report_emergency m n) = []) = (\<not> fst (report_emergency m n))"
  by (simp add: report_emergency_def Let_def emergency_determination_invariant)

text \<open>
  The form's default values with a platelet count of 40: the very-low-platelets flag
  makes it an emergency, and the reasons are not empty.
\<close>

theorem emergency_reasons_empty_iff_witness:
  "fst (report_emergency
      \<lparr>age = 30, sex = ''Male'', height_cm = 175, weight_kg = 70,
       systolic = 120, diastolic = 80, glucose_value = 90, glucose_context = ''Fasting'',
       hemoglobin = 14, wbc = 6, platelets = 40, total_cholesterol = 180, ldl = 100,
       hdl = 50, trig = 120\<rparr> DEFAULT_NORMS)
   \<and> snd (report_emergency
      \<lparr>age = 30, sex = ''Male'', height_cm = 175, weight_kg = 70,
       systolic = 120, diastolic = 80, glucose_value = 90, glucose_context = ''Fasting'',
       hemoglobin = 14, wbc = 6, platelets = 40, total_cholesterol = 180, ldl = 100,
       hdl = 50, trig = 120\<rparr> DEFAULT_NORMS) \<noteq> []"
proof -
  let ?m = "\<lparr>age = 30, sex = ''Male'', height_cm = 175, weight_kg = 70,
       systolic = 120, diastolic = 80, glucose_value = 90, glucose_context = ''Fasting'',
       hemoglobin = 14, wbc = 6, platelets = 40, total_cholesterol = 180, ldl = 100,
       hdl = 50, trig = 120\<rparr>"
  have "fst (report_emergency ?m DEFAULT_NORMS)"
    by code_simp
  with emergency_reasons_empty_iff [of ?m DEFAULT_NORMS] show ?thesis
    by blast
qed

section \<open>Exercise recommendations\<close>

text \<open>
  C4. For every age, BMI category and glucose interpretation, if the BP classification
  contains "Hypertensive crisis" then \<open>recommend_exercise_advanced\<close> returns the list whose
  only element is the urgent-referral line: no other recommendation line is generated.
\<close>

theorem recommend_exercise_crisis_single:
  "sublist ''Hypertensive crisis'' bp_class \<Longrightarrow>
     recommend_exercise_advanced a bmi_cat bp_class glucose_interp =
       [siren @ '' Emergency BP: get urgent medical review before starting/exercising.'']
     \<and> length (recommend_exercise_advanced a bmi_cat bp_class glucose_interp) = 1"
  by (simp add: recommend_exercise_advanced_def)

theorem recommend_exercise_crisis_single_witness:
  "sublist ''Hypertensive crisis'' (classify_bp 185 70 DEFAULT_NORMS)
   \<and> recommend_exercise_advanced 40 ''Obesity'' (classify_bp 185 70 DEFAULT_NORMS)
        ''Diabetes-range fasting'' =
       [siren @ '' Emergency BP: get urgent medical review before starting/exercising.'']"
proof -
  have crisis: "classify_bp 185 70 DEFAULT_NORMS = ''Hypertensive crisis''"
    by (simp add: classify_bp_def DEFAULT_NORMS_def)
  then have contained: "sublist ''Hypertensive crisis'' (classify_bp 185 70 DEFAULT_NORMS)"
    by simp
  from contained
    recommend_exercise_crisis_single [OF contained, of 40 "''Obesity''" "''Diabetes-range fasting''"]
  show ?thesis
    by blast
qed

section \<open>BMI category\<close>

text \<open>
  C5 as it is stated fails at one boundary. The Underweight band is \<open>bmi < underweight\<close>,
  so its upper boundary is exclusive: a BMI equal to the \<open>underweight\<close> threshold (18.5 by
  default) is not Underweight.
\<close>

theorem bmi_category_underweight_boundary:
  "bmi_category (underweight (bmi DEFAULT_NORMS)) DEFAULT_NORMS \<noteq> ''Underweight''"
  by (simp add: bmi_category_def DEFAULT_NORMS_def)

text \<open>
  C5, with the boundaries as the code has them. For every BMI value (non-negative or
  not) and every norms table,
  \<open>bmi_category\<close> returns one of the four labels Underweight, Normal weight, Overweight,
  Obesity, and the label does not decrease in severity as the BMI increases. The
  \<open>normal_upper\<close> and \<open>overweight\<close> boundaries are inclusive on the upper side of their
  band, while the \<open>underweight\<close> boundary is exclusive: a BMI equal to it is Normal weight
  (the thresholds being in increasing order). Under the default norms, 24.9 is
  Normal weight and 24.91 is Overweight.
\<close>

theorem bmi_category_bands:
  "bmi_category b n \<in> {''Underweight'', ''Normal weight'', ''Overweight'', ''Obesity''}
   \<and> (b \<le> b' \<longrightarrow> bmi_severity (bmi_category b n) \<le> bmi_severity (bmi_category b' n))
   \<and> (underweight (bmi n) \<le> normal_upper (bmi n) \<longrightarrow>
        bmi_category (underweight (bmi n)) n = ''Normal weight''
        \<and> bmi_category (normal_upper (bmi n)) n = ''Normal weight'')
   \<and> (underweight (bmi n) \<le> normal_upper (bmi n)
        \<and> normal_upper (bmi n) < overweight (bmi n) \<longrightarrow>
        bmi_category (overweight (bmi n)) n = ''Overweight'')
   \<and> bmi_category 24.9 DEFAULT_NORMS = ''Normal weight''
   \<and> bmi_category 24.91 DEFAULT_NORMS = ''Overweight''"
  by (simp add: bmi_category_def bmi_severity_def DEFAULT_NORMS_def)

theorem bmi_category_bands_witness:
  "bmi_severity (bmi_category 22 DEFAULT_NORMS) \<le> bmi_severity (bmi_category 31 DEFAULT_NORMS)
   \<and> bmi_category (underweight (bmi DEFAULT_NORMS)) DEFAULT_NORMS = ''Normal weight''
   \<and> bmi_category (normal_upper (bmi DEFAULT_NORMS)) DEFAULT_NORMS = ''Normal weight''
   \<and> bmi_category (overweight (bmi DEFAULT_NORMS)) DEFAULT_NORMS = ''Overweight''"
proof -
  have order: "(22 :: real) \<le> 31"
    by simp
  have bands: "underweight (bmi DEFAULT_NORMS) \<le> normal_upper (bmi DEFAULT_NORMS)"
    "normal_upper (bmi DEFAULT_NORMS) < overweight (bmi DEFAULT_NORMS)"
    by (simp_all add: DEFAULT_NORMS_def)
  from order bands bmi_category_bands [of 22 DEFAULT_NORMS 31] show ?thesis
    by blast
qed

section \<open>CBC flags\<close>

text \<open>
  C8. For every hemoglobin, WBC and platelet value, \<open>cbc_flags\<close> is the flag of the
  hemoglobin check, then that of the WBC check, then that of the platelets check, each
  check a first-match cascade that yields at most one flag: between 0 and 3 flags in
  all. Hemoglobin 7.5, WBC 6.0, platelets 500 give exactly two flags, the
  severe-hemoglobin flag and then the high-platelets flag.
\<close>

theorem cbc_flags_structure:
  "cbc_flags h w p = hemoglobin_check h @ wbc_check w @ platelets_check p
   \<and> length (hemoglobin_check h) \<le> 1
   \<and> length (wbc_check w) \<le> 1
   \<and> length (platelets_check p) \<le> 1
   \<and> length (cbc_flags h w p) \<le> 3
   \<and> cbc_flags 7.5 6.0 500 =
       [''Severely low hemoglobin '' @ em_dash @ '' urgent evaluation needed'',
        ''High platelets '' @ em_dash @ '' reactive thrombocytosis or myeloproliferative process'']"
  by (simp add: cbc_flags_def hemoglobin_check_def wbc_check_def platelets_check_def)

theorem cbc_flags_structure_witness:
  "cbc_flags 10 1.5 100 =
     [''Low hemoglobin '' @ em_dash @ '' possible anemia; consider iron studies'',
      ''Severely low WBC '' @ em_dash @ '' urgent evaluation needed'',
      ''Low platelets '' @ em_dash @ '' bleeding risk'']"
  using cbc_flags_structure [of 10 "1.5" 100]
  by (simp add: hemoglobin_check_def wbc_check_def platelets_check_def)

section \<open>Lipid flags\<close>

lemma lipid_messages_no_keyword:
  "list_all (\<lambda>f. \<not> sublist ''severe'' (lower f) \<and> \<not> sublist ''urgent'' (lower f)
      \<and> \<not> sublist ''very low'' (lower f) \<and> \<not> sublist ''very high'' (lower f)) lipid_messages"
  by code_simp

lemma interpret_lipids_messages:
  "list_all P lipid_messages \<Longrightarrow> list_all P (interpret_lipids t l h g n)"
  by (simp add: interpret_lipids_def lipid_messages_def)

text \<open>
  C9. For every lipid input and every norms table, no string returned by
  \<open>interpret_lipids\<close> contains "severe", "urgent", "very low" or "very high" once
  lowercased. So the flag scan of the emergency determination never sets
  \<open>needs_emergency\<close> and never appends a reason because of a lipid flag: the determination
  is the one computed with no lipid flags at all.
\<close>

theorem lipid_flags_never_emergency:
  "(\<forall>f \<in> set (interpret_lipids t l h g n).
       \<not> sublist ''severe'' (lower f) \<and> \<not> sublist ''urgent'' (lower f)
       \<and> \<not> sublist ''very low'' (lower f) \<and> \<not> sublist ''very high'' (lower f))
   \<and> emergency_determination b gi c (interpret_lipids t l h g n) =
       emergency_determination b gi c []"
proof -
  have none: "\<forall>f \<in> set (interpret_lipids t l h g n).
       \<not> sublist ''severe'' (lower f) \<and> \<not> sublist ''urgent'' (lower f)
       \<and> \<not> sublist ''very low'' (lower f) \<and> \<not> sublist ''very high'' (lower f)"
    using interpret_lipids_messages [OF lipid_messages_no_keyword, of t l h g n]
    unfolding list_all_iff .
  then have "list_all (\<lambda>f. \<not> severity_keyword f) (interpret_lipids t l h g n)"
    by (simp add: list_all_iff severity_keyword_def)
  then have "scan_flags (interpret_lipids t l h g n) (emergency_determination b gi c []) =
      emergency_determination b gi c []"
    by (rule scan_flags_no_keyword)
  with none show ?thesis
    using emergency_determination_scan [of b gi c "[]" "interpret_lipids t l h g n"]
    by simp
qed

theorem lipid_flags_never_emergency_witness:
  "\<not> sublist ''very low''
       (lower (''HDL low '' @ em_dash @ '' increases cardiovascular risk; increase physical activity''))
   \<and> emergency_determination ''Normal'' ''Normal fasting'' []
        (interpret_lipids 250 170 30 300 DEFAULT_NORMS) =
       emergency_determination ''Normal'' ''Normal fasting'' [] []"
proof -
  let ?hdl = "''HDL low '' @ em_dash @ '' increases cardiovascular risk; increase physical activity''"
  have member: "?hdl \<in> set (interpret_lipids 250 170 30 300 DEFAULT_NORMS)"
    by (simp add: interpret_lipids_def DEFAULT_NORMS_def)
  from member
    lipid_flags_never_emergency [of 250 170 30 300 DEFAULT_NORMS "''Normal''" "''Normal fasting''" "[]"]
  show ?thesis
    by blast
qed

section \<open>Norms provider\<close>

text \<open>
  What holds of \<open>fetch_medical_norms\<close>: it never raises; it returns the embedded table
  when the import or the request fails, when the status is not 200 and when the body does
  not decode; and a JSON object is returned exactly when it has both keys.
\<close>

lemma fetch_medical_norms_never_raises:
  "\<exists>v. fetch_medical_norms env = Inr v"
  by (simp add: fetch_medical_norms_def split: sum.splits option.splits)

lemma fetch_medical_norms_failures:
  "fetch_medical_norms ImportFails = Inr (Default DEFAULT_NORMS)"
  "fetch_medical_norms GetFails = Inr (Default DEFAULT_NORMS)"
  "fetch_medical_norms (GetReturns (Response code (Inl e))) = Inr (Default DEFAULT_NORMS)"
  "code \<noteq> 200 \<Longrightarrow>
     fetch_medical_norms (GetReturns (Response code body)) = Inr (Default DEFAULT_NORMS)"
  by (simp_all add: fetch_medical_norms_def fetch_try_def)

lemma fetch_medical_norms_object:
  "fetch_medical_norms (GetReturns (Response 200 (Inr (JObj kvs)))) =
     (if has_key (JObj kvs) ''bmi'' \<and> has_key (JObj kvs) ''bp''
      then Inr (Payload (JObj kvs)) else Inr (Default DEFAULT_NORMS))"
  by (simp add: fetch_medical_norms_def fetch_try_def py_in_def has_key_def)

lemma fetch_medical_norms_no_container:
  "data = JNull \<or> data = JBool v \<or> data = JNum x \<Longrightarrow>
     fetch_medical_norms (GetReturns (Response 200 (Inr data))) = Inr (Default DEFAULT_NORMS)"
  by (auto simp: fetch_medical_norms_def fetch_try_def py_in_def)

text \<open>
  C6. The claim: on every fetch outcome in which the payload lacks the top-level key
  "bmi" or "bp" the embedded default table is returned, and a payload is returned only
  when it has both keys. The code tests \<open>"bmi" in data and "bp" in data\<close> on whatever
  \<open>resp.json()\<close> decoded. On a JSON string that is a substring test (and on a JSON array
  an element test): the response 200 with the body \<open>"bmi bp"\<close> passes the validation and
  the string, which has no key at all, is returned as the norms table.
\<close>

theorem fetch_medical_norms_string_payload:
  "fetch_medical_norms (GetReturns (Response 200 (Inr (JStr ''bmi bp'')))) =
     Inr (Payload (JStr ''bmi bp''))
   \<and> \<not> has_key (JStr ''bmi bp'') ''bmi''
   \<and> \<not> has_key (JStr ''bmi bp'') ''bp''"
  by (simp add: fetch_medical_norms_def fetch_try_def py_in_def has_key_def sublist_code)

lemma fetch_medical_norms_array_payload:
  "fetch_medical_norms (GetReturns (Response 200 (Inr (JArr [JStr ''bmi'', JStr ''bp''])))) =
     Inr (Payload (JArr [JStr ''bmi'', JStr ''bp'']))"
  by (simp add: fetch_medical_norms_def fetch_try_def py_in_def)

section \<open>BMI value\<close>

subsection \<open>The binary exponent\<close>

text \<open>\<open>ilog2\<close> is the floor of the binary logarithm, computed from bit lengths.\<close>

lemma ilog2_lower_ge1:
  assumes "1 \<le> x"
  shows "2 powi (ilog2 x) \<le> x"
proof -
  let ?n = "\<lfloor>x\<rfloor>"
  from assms have n: "0 < ?n" by linarith
  from bitlen_bounds [OF n] have "2 ^ nat (bitlen ?n - 1) \<le> ?n" by simp
  then have "(2::real) ^ nat (bitlen ?n - 1) \<le> of_int ?n"
    by (metis of_int_le_iff of_int_numeral of_int_power)
  also have "\<dots> \<le> x" by simp
  finally have "(2::real) ^ nat (bitlen ?n - 1) \<le> x" .
  moreover have "bitlen ?n - 1 \<ge> 0"
    using n by (simp add: bitlen_alt_def)
  ultimately show ?thesis
    using assms by (simp add: ilog2_def power_int_def)
qed

lemma ilog2_upper_ge1:
  assumes "1 \<le> x"
  shows "x < 2 powi (ilog2 x + 1)"
proof -
  let ?n = "\<lfloor>x\<rfloor>"
  from assms have n: "0 < ?n" by linarith
  from bitlen_bounds [OF n] have "?n < 2 ^ nat (bitlen ?n)" by simp
  then have "?n + 1 \<le> 2 ^ nat (bitlen ?n)" by simp
  then have "of_int (?n + 1) \<le> (2::real) ^ nat (bitlen ?n)"
    by (metis of_int_le_iff of_int_numeral of_int_power)
  moreover have "x < of_int (?n + 1)" by linarith
  ultimately have "x < (2::real) ^ nat (bitlen ?n)" by linarith
  moreover have "bitlen ?n \<ge> 0" by (rule bitlen_nonneg)
  ultimately show ?thesis
    using assms by (simp add: ilog2_def power_int_def)
qed

lemma ilog2_lower_lt1:
  assumes "0 < x" "x < 1"
  shows "2 powi (ilog2 x) \<le> x"
proof -
  let ?m = "\<lceil>1 / x\<rceil> - 1"
  from assms have y: "1 < 1 / x" by simp
  then have m: "0 < ?m" by linarith
  from bitlen_bounds [OF m] have "?m < 2 ^ nat (bitlen ?m)" by simp
  then have "?m + 1 \<le> 2 ^ nat (bitlen ?m)" by simp
  then have "of_int (?m + 1) \<le> (2::real) ^ nat (bitlen ?m)"
    by (metis of_int_le_iff of_int_numeral of_int_power)
  moreover have "1 / x \<le> of_int (?m + 1)" by simp
  ultimately have "1 / x \<le> (2::real) ^ nat (bitlen ?m)" by linarith
  then have "1 / (2::real) ^ nat (bitlen ?m) \<le> x"
    using assms(1) by (simp add: field_simps)
  moreover have "bitlen ?m > 0"
    using m by (simp add: bitlen_alt_def)
  ultimately show ?thesis
    using assms by (simp add: ilog2_def power_int_def field_simps)
qed

lemma ilog2_upper_lt1:
  assumes "0 < x" "x < 1"
  shows "x < 2 powi (ilog2 x + 1)"
proof -
  let ?m = "\<lceil>1 / x\<rceil> - 1"
  from assms have y: "1 < 1 / x" by simp
  then have m: "0 < ?m" by linarith
  from bitlen_bounds [OF m] have "2 ^ nat (bitlen ?m - 1) \<le> ?m" by simp
  then have "(2::real) ^ nat (bitlen ?m - 1) \<le> of_int ?m"
    by (metis of_int_le_iff of_int_numeral of_int_power)
  moreover have "of_int ?m < 1 / x" by linarith
  ultimately have "(2::real) ^ nat (bitlen ?m - 1) < 1 / x" by linarith
  then have lt: "x < 1 / (2::real) ^ nat (bitlen ?m - 1)"
    using assms(1) by (simp add: field_simps)
  have pos: "bitlen ?m > 0"
    using m by (simp add: bitlen_alt_def)
  have "ilog2 x + 1 = - (bitlen ?m - 1)"
    using assms by (simp add: ilog2_def)
  moreover have "(2::real) powi (- (bitlen ?m - 1)) = 1 / 2 ^ nat (bitlen ?m - 1)"
    using pos by (simp add: power_int_def field_simps)
  ultimately show ?thesis
    using lt by simp
qed

lemma ilog2_bounds:
  "0 < x \<Longrightarrow> 2 powi (ilog2 x) \<le> x \<and> x < 2 powi (ilog2 x + 1)"
  using ilog2_lower_ge1 ilog2_upper_ge1 ilog2_lower_lt1 ilog2_upper_lt1
  by (cases "1 \<le> x") auto

lemma ilog2_unique:
  assumes "0 < x" "2 powi k \<le> x" "x < 2 powi (k + 1)"
  shows "ilog2 x = k"
proof -
  from ilog2_bounds [OF assms(1)]
  have lo: "2 powi (ilog2 x) \<le> x" and hi: "x < 2 powi (ilog2 x + 1)" by simp_all
  have "\<not> k + 1 \<le> ilog2 x"
  proof
    assume "k + 1 \<le> ilog2 x"
    then have "(2::real) powi (k + 1) \<le> 2 powi (ilog2 x)"
      by (rule power_int_increasing) simp
    with lo assms(3) show False by linarith
  qed
  moreover have "\<not> ilog2 x + 1 \<le> k"
  proof
    assume "ilog2 x + 1 \<le> k"
    then have "(2::real) powi (ilog2 x + 1) \<le> 2 powi k"
      by (rule power_int_increasing) simp
    with hi assms(2) show False by linarith
  qed
  ultimately show ?thesis by linarith
qed

lemma ilog2_power_int: "ilog2 (2 powi k) = k"
proof (rule ilog2_unique)
  show "(0::real) < 2 powi k" by simp
  show "(2::real) powi k \<le> 2 powi k" by simp
  show "(2::real) powi k < 2 powi (k + 1)"
    by (rule power_int_strict_increasing) simp_all
qed

lemma ilog2_floor_log:
  assumes "0 < x"
  shows "ilog2 x = \<lfloor>log 2 x\<rfloor>"
proof -
  from ilog2_bounds [OF assms]
  have lo: "2 powi (ilog2 x) \<le> x" and hi: "x < 2 powi (ilog2 x + 1)" by simp_all
  from lo have "2 powr (of_int (ilog2 x)) \<le> x"
    by (simp add: powr_real_of_int')
  then have a: "of_int (ilog2 x) \<le> log 2 x"
    using assms by (simp add: le_log_iff)
  have "(2::real) powr (of_int (ilog2 x + 1)) = 2 powi (ilog2 x + 1)"
    by (rule powr_real_of_int') simp_all
  with hi have "x < 2 powr (of_int (ilog2 x + 1))"
    by simp
  then have "log 2 x < of_int (ilog2 x + 1)"
    using assms by (simp add: log_less_iff)
  then have b: "log 2 x < of_int (ilog2 x) + 1"
    by simp
  from a b show ?thesis
    by (simp add: floor_unique)
qed

subsection \<open>Rounding\<close>

text \<open>
  A value with a 53-bit significand and an exponent in range is a double and rounds to
  itself; a positive value of at most half the smallest subnormal rounds to zero; a
  53-bit significand with too large an exponent rounds to the infinity.
\<close>

lemma round_half_even_of_int: "round_half_even (of_int n) = n"
  by (simp add: round_half_even_def)

lemma round_half_even_small: "0 \<le> y \<Longrightarrow> y \<le> 1 / 2 \<Longrightarrow> round_half_even y = 0"
proof -
  assume "0 \<le> y" "y \<le> 1 / 2"
  then have "\<lfloor>y\<rfloor> = 0" by linarith
  then show ?thesis
    using \<open>y \<le> 1 / 2\<close> by (simp add: round_half_even_def)
qed

lemma round_double_fixed:
  assumes "2 powi 52 \<le> real_of_int m" "real_of_int m < 2 powi 53" "- 1074 \<le> k" "k \<le> 971"
  shows "round_double (of_int m * 2 powi k) = Finite (of_int m * 2 powi k)"
proof -
  let ?x = "real_of_int m * 2 powi k"
  have two: "(0::real) < 2 powi k" by simp
  from assms(1) have m_pos: "0 < real_of_int m"
    by (rule less_le_trans [rotated]) simp
  then have pos: "0 < ?x" by simp
  have "(2::real) powi (52 + k) = 2 powi 52 * 2 powi k"
    by (simp add: power_int_add)
  also have "\<dots> \<le> ?x"
    using assms(1) two by (simp only: mult_le_cancel_right_pos)
  finally have lo: "2 powi (52 + k) \<le> ?x" .
  have "?x < 2 powi 53 * 2 powi k"
    using assms(2) two by (simp only: mult_less_cancel_right_pos)
  also have "\<dots> = (2::real) powi (52 + k + 1)"
    by (simp add: power_int_add)
  finally have hi: "?x < 2 powi (52 + k + 1)" .
  from pos lo hi have e: "ilog2 ?x = 52 + k"
    by (rule ilog2_unique)
  have q: "max (ilog2 \<bar>?x\<bar> - 52) (- 1074) = k"
    using pos e assms(3) by simp
  have scaled: "?x / 2 powi k = real_of_int m"
    by simp
  have "(2::real) powi (52 + k + 1) \<le> 2 powi 1024"
    using assms(4) by (intro power_int_increasing) simp_all
  with hi have bound: "\<not> 2 powi 1024 \<le> \<bar>?x\<bar>"
    using pos by simp
  have "?x \<noteq> 0" using m_pos by simp
  then show ?thesis
    unfolding round_double_def Let_def q scaled round_half_even_of_int
    using bound by simp
qed

lemma round_double_underflow:
  assumes "0 < x" "x \<le> 2 powi (- 1075)"
  shows "round_double x = Finite 0"
proof -
  from ilog2_bounds [OF assms(1)] have lo: "2 powi (ilog2 x) \<le> x" by simp
  have "\<not> - 1074 \<le> ilog2 x"
  proof
    assume "- 1074 \<le> ilog2 x"
    then have "(2::real) powi (- 1074) \<le> 2 powi (ilog2 x)"
      by (rule power_int_increasing) simp
    moreover have "(2::real) powi (- 1075) < 2 powi (- 1074)"
      by (rule power_int_strict_increasing) simp_all
    ultimately show False using lo assms(2) by linarith
  qed
  then have q: "max (ilog2 \<bar>x\<bar> - 52) (- 1074) = - 1074"
    using assms(1) by simp
  have "(2::real) powi (- 1075) = 2 powi (- 1074) * (1 / 2)"
    using power_int_add [of "2::real" "- 1075" 1] by simp
  then have "x / 2 powi (- 1074) \<le> 1 / 2"
    using assms(2) by (simp add: field_simps)
  moreover have "0 \<le> x / 2 powi (- 1074)"
    using assms(1) by simp
  ultimately have "round_half_even (x / 2 powi (- 1074)) = 0"
    by (intro round_half_even_small)
  moreover have "x \<noteq> 0" using assms(1) by simp
  ultimately show ?thesis
    unfolding round_double_def Let_def q by simp
qed

lemma round_double_overflow:
  assumes "2 powi 52 \<le> real_of_int m" "real_of_int m < 2 powi 53" "972 \<le> k"
  shows "round_double (of_int m * 2 powi k) = PosInf"
proof -
  let ?x = "real_of_int m * 2 powi k"
  have two: "(0::real) < 2 powi k" by simp
  from assms(1) have m_pos: "0 < real_of_int m"
    by (rule less_le_trans [rotated]) simp
  then have pos: "0 < ?x" by simp
  have "(2::real) powi (52 + k) = 2 powi 52 * 2 powi k"
    by (simp add: power_int_add)
  also have "\<dots> \<le> ?x"
    using assms(1) two by (simp only: mult_le_cancel_right_pos)
  finally have lo: "2 powi (52 + k) \<le> ?x" .
  have "?x < 2 powi 53 * 2 powi k"
    using assms(2) two by (simp only: mult_less_cancel_right_pos)
  also have "\<dots> = (2::real) powi (52 + k + 1)"
    by (simp add: power_int_add)
  finally have hi: "?x < 2 powi (52 + k + 1)" .
  from pos lo hi have e: "ilog2 ?x = 52 + k"
    by (rule ilog2_unique)
  have q: "max (ilog2 \<bar>?x\<bar> - 52) (- 1074) = k"
    using pos e assms(3) by simp
  have scaled: "?x / 2 powi k = real_of_int m"
    by simp
  have "(2::real) powi 1024 \<le> 2 powi (52 + k)"
    using assms(3) by (intro power_int_increasing) simp_all
  with lo have bound: "2 powi 1024 \<le> \<bar>?x\<bar>"
    using pos by simp
  have "?x \<noteq> 0" using m_pos by simp
  then show ?thesis
    unfolding round_double_def Let_def q scaled round_half_even_of_int
    using bound pos by simp
qed

lemma round_double_power2:
  assumes "- 1022 \<le> k" "k \<le> 1023"
  shows "round_double (2 powi k) = Finite (2 powi k)"
proof -
  have "(2::real) powi k = real_of_int (2 ^ 52) * 2 powi (k - 52)"
    using power_int_add [of "2::real" 52 "k - 52"] by simp
  moreover have "round_double (real_of_int (2 ^ 52) * 2 powi (k - 52)) =
      Finite (real_of_int (2 ^ 52) * 2 powi (k - 52))"
    using assms by (intro round_double_fixed) simp_all
  ultimately show ?thesis
    by simp
qed

lemma round_double_hundred_power2:
  assumes "- 1022 \<le> k" "k \<le> 1017"
  shows "round_double (100 * 2 powi k) = Finite (100 * 2 powi k)"
proof -
  have "(2::real) powi k = 2 powi 46 * 2 powi (k - 46)"
    using power_int_add [of "2::real" 46 "k - 46"] by simp
  moreover have "real_of_int (25 * 2 ^ 48) = 100 * 2 powi 46"
    by simp
  ultimately have "(100::real) * 2 powi k = real_of_int (25 * 2 ^ 48) * 2 powi (k - 46)"
    by simp
  moreover have "round_double (real_of_int (25 * 2 ^ 48) * 2 powi (k - 46)) =
      Finite (real_of_int (25 * 2 ^ 48) * 2 powi (k - 46))"
    using assms by (intro round_double_fixed) simp_all
  ultimately show ?thesis
    by simp
qed

subsection \<open>\<open>calculate_bmi\<close> on very small and very large heights\<close>

text \<open>
  On the ordinary input of 70 kg and 175 cm the model computes the double that Python
  prints as 22.857142857142858.
\<close>

lemma calculate_bmi_example:
  "calculate_bmi (Finite 70) (Finite 175) = Inr (Finite (6433713753386423 / 281474976710656))"
  by code_simp

lemma metres_power2:
  assumes "- 1022 \<le> k" "k \<le> 1023"
  shows "float_truediv (Finite (100 * 2 powi k)) (Finite 100) = Inr (Finite (2 powi k))"
  using assms by (simp add: float_truediv_def round_double_power2)

lemma squared_underflow:
  assumes "2 * k \<le> - 1075"
  shows "float_pow2 (Finite (2 powi k)) = Inr (Finite 0)"
proof -
  have "(2::real) powi k * 2 powi k = 2 powi (2 * k)"
    using power_int_add [of "2::real" k k] by simp
  moreover have "(2::real) powi (2 * k) \<le> 2 powi (- 1075)"
    using assms by (intro power_int_increasing) simp_all
  then have "round_double (2 powi (2 * k)) = Finite 0"
    by (intro round_double_underflow) simp_all
  ultimately show ?thesis
    by (simp add: float_pow2_def)
qed

lemma squared_overflow:
  assumes "1024 \<le> 2 * k"
  shows "float_pow2 (Finite (2 powi k)) = Inl OverflowError"
proof -
  have "(2::real) powi k * 2 powi k = real_of_int (2 ^ 52) * 2 powi (2 * k - 52)"
    using power_int_add [of "2::real" k k] power_int_add [of "2::real" 52 "2 * k - 52"] by simp
  moreover have "round_double (real_of_int (2 ^ 52) * 2 powi (2 * k - 52)) = PosInf"
    using assms by (intro round_double_overflow) simp_all
  ultimately show ?thesis
    by (simp add: float_pow2_def)
qed

lemma calculate_bmi_underflow:
  assumes "- 1022 \<le> k" "2 * k \<le> - 1075"
  shows "calculate_bmi w (Finite (100 * 2 powi k)) = Inl ZeroDivisionError"
proof -
  have "(0::real) < 2 powi k"
    by simp
  then have "\<not> float_le (Finite (100 * 2 powi k)) (Finite 0)"
    by (simp add: float_le_def not_le)
  moreover have "float_truediv (Finite (100 * 2 powi k)) (Finite 100) = Inr (Finite (2 powi k))"
    using assms by (intro metres_power2) simp_all
  moreover have "float_pow2 (Finite (2 powi k)) = Inr (Finite 0)"
    using assms(2) by (rule squared_underflow)
  moreover have "float_truediv w (Finite 0) = Inl ZeroDivisionError"
    by (simp add: float_truediv_def)
  ultimately show ?thesis
    by (simp add: calculate_bmi_def)
qed

lemma calculate_bmi_overflow:
  assumes "1024 \<le> 2 * k" "k \<le> 1017"
  shows "calculate_bmi w (Finite (100 * 2 powi k)) = Inl OverflowError"
proof -
  have "(0::real) < 2 powi k"
    by simp
  then have "\<not> float_le (Finite (100 * 2 powi k)) (Finite 0)"
    by (simp add: float_le_def not_le)
  moreover have "float_truediv (Finite (100 * 2 powi k)) (Finite 100) = Inr (Finite (2 powi k))"
    using assms by (intro metres_power2) simp_all
  moreover have "float_pow2 (Finite (2 powi k)) = Inl OverflowError"
    using assms(1) by (rule squared_overflow)
  ultimately show ?thesis
    by (simp add: calculate_bmi_def)
qed

lemma calculate_bmi_nonpositive_height:
  "float_le h (Finite 0) \<Longrightarrow> calculate_bmi w h = Inr (Finite 0)"
  by (simp add: calculate_bmi_def)

text \<open>
  C7. The claim: for every weight and height, \<open>calculate_bmi\<close> returns
  weight / (height / 100) squared when the height is positive and 0 otherwise, and never
  raises.
  The guard \<open>height_cm <= 0\<close> does keep a zero height away from the division, but not a
  height whose square underflows: \<open>100 * 2.0 ** -600\<close> (about 2.41e-179) is a positive
  double, \<open>height_cm / 100.0\<close> is \<open>2.0 ** -600\<close>, its square is rounded to 0.0 and the
  division raises \<open>ZeroDivisionError\<close>.
\<close>

theorem calculate_bmi_tiny_height:
  "round_double (100 * 2 powi (- 600)) = Finite (100 * 2 powi (- 600))
   \<and> \<not> float_le (Finite (100 * 2 powi (- 600))) (Finite 0)
   \<and> calculate_bmi (Finite 70) (Finite (100 * 2 powi (- 600))) = Inl ZeroDivisionError"
proof -
  have "round_double (100 * 2 powi (- 600)) = Finite (100 * 2 powi (- 600))"
    by (rule round_double_hundred_power2) simp_all
  moreover have "\<not> float_le (Finite (100 * 2 powi (- 600))) (Finite 0)"
    by (simp add: float_le_def)
  moreover have "calculate_bmi (Finite 70) (Finite (100 * 2 powi (- 600))) = Inl ZeroDivisionError"
    by (rule calculate_bmi_underflow) simp_all
  ultimately show ?thesis
    by (intro conjI)
qed

end
